theory Spec2Isabelle
  imports Complex_Main "HOL-Library.Log_Nat"
begin

section \<open>JavaScript numbers\<close>

text \<open>
  The values script.js computes with are JavaScript numbers: IEEE binary64 doubles.
  A finite double is modelled by the rational it denotes, next to the three non-finite
  values. Every arithmetic operation rounds its exact result to the nearest double, a
  tie going to the even significand (\<open>fl\<close>); a decimal literal of the source such as
  \<^verbatim>\<open>0.7\<close> is the double nearest to it, \<open>fl (7 / 10)\<close>. The sign of zero is left out.
\<close>

datatype jsnum = Fin rat | PInf | NInf | NaN

definition pow2 :: "int \<Rightarrow> rat" where
  "pow2 e = (if 0 \<le> e then 2 ^ nat e else 1 / 2 ^ nat (- e))"

text \<open>For \<open>0 < a\<close>, the exponent \<open>e\<close> with \<open>2^e \<le> a < 2^(e+1)\<close>.\<close>

definition floor_log2 :: "rat \<Rightarrow> int" where
  "floor_log2 a = (if 1 \<le> a then bitlen \<lfloor>a\<rfloor> - 1 else - bitlen (\<lceil>1 / a\<rceil> - 1))"

definition round_half_even :: "rat \<Rightarrow> int" where
  "round_half_even m =
     (let n = \<lfloor>m\<rfloor>; f = m - of_int n
      in if f < 1 / 2 then n else if 1 / 2 < f then n + 1 else if even n then n else n + 1)"

text \<open>
  Rounding to binary64: 53 significant bits, the exponent of the smallest normal number
  at least (below it the spacing stays \<open>2^-1074\<close>), and an infinity once the rounded
  magnitude reaches \<open>2^1024\<close>.
\<close>

definition fl :: "rat \<Rightarrow> jsnum" where
  "fl x =
     (if x = 0 then Fin 0
      else let a = \<bar>x\<bar>;
               e = max (floor_log2 a) (- 1022);
               q = pow2 (e - 52);
               r = of_int (round_half_even (a / q)) * q
           in if pow2 1024 \<le> r then (if 0 < x then PInf else NInf)
              else Fin (if 0 < x then r else - r))"

fun js_neg :: "jsnum \<Rightarrow> jsnum" where
  "js_neg (Fin a) = Fin (- a)"
| "js_neg PInf = NInf"
| "js_neg NInf = PInf"
| "js_neg NaN = NaN"

fun js_add :: "jsnum \<Rightarrow> jsnum \<Rightarrow> jsnum" where
  "js_add (Fin a) (Fin b) = fl (a + b)"
| "js_add NaN _ = NaN"
| "js_add _ NaN = NaN"
| "js_add PInf NInf = NaN"
| "js_add NInf PInf = NaN"
| "js_add PInf _ = PInf"
| "js_add _ PInf = PInf"
| "js_add NInf _ = NInf"
| "js_add _ NInf = NInf"

definition js_sub :: "jsnum \<Rightarrow> jsnum \<Rightarrow> jsnum" where
  "js_sub a b = js_add a (js_neg b)"

fun js_mul :: "jsnum \<Rightarrow> jsnum \<Rightarrow> jsnum" where
  "js_mul (Fin a) (Fin b) = fl (a * b)"
| "js_mul NaN _ = NaN"
| "js_mul _ NaN = NaN"
| "js_mul PInf (Fin b) = (if b = 0 then NaN else if 0 < b then PInf else NInf)"
| "js_mul NInf (Fin b) = (if b = 0 then NaN else if 0 < b then NInf else PInf)"
| "js_mul (Fin a) PInf = (if a = 0 then NaN else if 0 < a then PInf else NInf)"
| "js_mul (Fin a) NInf = (if a = 0 then NaN else if 0 < a then NInf else PInf)"
| "js_mul PInf PInf = PInf"
| "js_mul NInf NInf = PInf"
| "js_mul PInf NInf = NInf"
| "js_mul NInf PInf = NInf"

text \<open>Division never raises: a zero divisor gives an infinity, or NaN for 0 / 0.\<close>

fun js_div :: "jsnum \<Rightarrow> jsnum \<Rightarrow> jsnum" where
  "js_div (Fin a) (Fin b) =
     (if b = 0 then (if a = 0 then NaN else if 0 < a then PInf else NInf) else fl (a / b))"
| "js_div NaN _ = NaN"
| "js_div _ NaN = NaN"
| "js_div (Fin a) PInf = Fin 0"
| "js_div (Fin a) NInf = Fin 0"
| "js_div PInf (Fin b) = (if b < 0 then NInf else PInf)"
| "js_div NInf (Fin b) = (if b < 0 then PInf else NInf)"
| "js_div PInf PInf = NaN"
| "js_div PInf NInf = NaN"
| "js_div NInf PInf = NaN"
| "js_div NInf NInf = NaN"

text \<open>\<^verbatim>\<open>a > b\<close>: false as soon as one side is NaN.\<close>

fun js_gt :: "jsnum \<Rightarrow> jsnum \<Rightarrow> bool" where
  "js_gt (Fin a) (Fin b) = (b < a)"
| "js_gt NaN _ = False"
| "js_gt _ NaN = False"
| "js_gt PInf PInf = False"
| "js_gt PInf _ = True"
| "js_gt _ PInf = False"
| "js_gt NInf _ = False"
| "js_gt _ NInf = True"

text \<open>\<^verbatim>\<open>Math.max\<close> and \<^verbatim>\<open>Math.min\<close> of two arguments: NaN is contagious.\<close>

fun Math_max :: "jsnum \<Rightarrow> jsnum \<Rightarrow> jsnum" where
  "Math_max (Fin a) (Fin b) = Fin (max a b)"
| "Math_max NaN _ = NaN"
| "Math_max _ NaN = NaN"
| "Math_max PInf _ = PInf"
| "Math_max _ PInf = PInf"
| "Math_max NInf b = b"
| "Math_max a NInf = a"

fun Math_min :: "jsnum \<Rightarrow> jsnum \<Rightarrow> jsnum" where
  "Math_min (Fin a) (Fin b) = Fin (min a b)"
| "Math_min NaN _ = NaN"
| "Math_min _ NaN = NaN"
| "Math_min NInf _ = NInf"
| "Math_min _ NInf = NInf"
| "Math_min PInf b = b"
| "Math_min a PInf = a"

text \<open>\<^verbatim>\<open>Math.round\<close>: the nearest integer, a tie going up.\<close>

fun Math_round :: "jsnum \<Rightarrow> jsnum" where
  "Math_round (Fin a) = Fin (of_int \<lfloor>a + 1 / 2\<rfloor>)"
| "Math_round PInf = PInf"
| "Math_round NInf = NInf"
| "Math_round NaN = NaN"

text \<open>
  \<^verbatim>\<open>x.toFixed(1)\<close> returns a decimal string with one digit after the point; the sign
  is split off first and a tie goes to the larger magnitude. From 10^21 on the string is
  that of the number itself. The model keeps the number the string denotes: the three
  fields written this way (cpu.freq, gpu.memory, ram.used) are only interpolated into
  detail texts afterwards.
\<close>

fun toFixed1 :: "jsnum \<Rightarrow> jsnum" where
  "toFixed1 (Fin a) =
     (if 10 ^ 21 \<le> \<bar>a\<bar> then Fin a
      else if a < 0 then Fin (- (of_int \<lfloor>(- a) * 10 + 1 / 2\<rfloor> / 10))
      else Fin (of_int \<lfloor>a * 10 + 1 / 2\<rfloor> / 10))"
| "toFixed1 PInf = PInf"
| "toFixed1 NInf = NInf"
| "toFixed1 NaN = NaN"

section \<open>The metric set\<close>

text \<open>
  \<^verbatim>\<open>this.performanceData\<close> always has the five keys disk, gpu, proc, ram, cpu, in this
  order; no code adds or removes one. Each holds an object, modelled as a map from
  property names to numbers.
\<close>

datatype metric = Disk | Gpu | Proc | Ram | Cpu

type_synonym reading = "string \<rightharpoonup> jsnum"
type_synonym perfdata = "metric \<Rightarrow> reading"

fun metric_name :: "metric \<Rightarrow> string" where
  "metric_name Disk = ''disk''"
| "metric_name Gpu = ''gpu''"
| "metric_name Proc = ''proc''"
| "metric_name Ram = ''ram''"
| "metric_name Cpu = ''cpu''"

definition Object_keys :: "metric list" where
  "Object_keys = [Disk, Gpu, Proc, Ram, Cpu]"

definition metric_of_name :: "string \<Rightarrow> metric option" where
  "metric_of_name s =
     (if s = ''disk'' then Some Disk
      else if s = ''gpu'' then Some Gpu
      else if s = ''proc'' then Some Proc
      else if s = ''ram'' then Some Ram
      else if s = ''cpu'' then Some Cpu
      else None)"

text \<open>
  \<^verbatim>\<open>performanceData[name]\<close> is also truthy for the property names every object
  inherits from \<^verbatim>\<open>Object.prototype\<close>; a write through such a name lands on the
  shared prototype member and never on one of the five readings.
\<close>

definition inherited_key :: "string \<Rightarrow> bool" where
  "inherited_key s \<longleftrightarrow> s \<in> set [''constructor'', ''hasOwnProperty'', ''isPrototypeOf'',
     ''propertyIsEnumerable'', ''toLocaleString'', ''toString'', ''valueOf'', ''__proto__'',
     ''__defineGetter__'', ''__defineSetter__'', ''__lookupGetter__'', ''__lookupSetter__'']"

text \<open>Reading a property for arithmetic: a missing one is \<^verbatim>\<open>undefined\<close>, that is NaN.\<close>

definition num :: "reading \<Rightarrow> string \<Rightarrow> jsnum" where
  "num r k = (case r k of Some v \<Rightarrow> v | None \<Rightarrow> NaN)"

definition usage :: "perfdata \<Rightarrow> metric \<Rightarrow> jsnum" where
  "usage pd m = num (pd m) ''usage''"

definition set_field :: "metric \<Rightarrow> string \<Rightarrow> jsnum \<Rightarrow> perfdata \<Rightarrow> perfdata" where
  "set_field m k v pd = pd(m := (pd m)(k \<mapsto> v))"

text \<open>The object literal of \<^verbatim>\<open>initializePerformanceMonitoring\<close> (lines 47-53).\<close>

definition initialData :: perfdata where
  "initialData m =
     (case m of
        Disk \<Rightarrow> [''usage'' \<mapsto> Fin 0, ''used'' \<mapsto> Fin 0, ''free'' \<mapsto> Fin 0, ''total'' \<mapsto> Fin 100]
      | Gpu \<Rightarrow> [''usage'' \<mapsto> Fin 0, ''temp'' \<mapsto> Fin 0, ''memory'' \<mapsto> Fin 0]
      | Proc \<Rightarrow> [''usage'' \<mapsto> Fin 0, ''cores'' \<mapsto> Fin 0, ''threads'' \<mapsto> Fin 0]
      | Ram \<Rightarrow> [''usage'' \<mapsto> Fin 0, ''used'' \<mapsto> Fin 0, ''total'' \<mapsto> Fin 16]
      | Cpu \<Rightarrow> [''usage'' \<mapsto> Fin 0, ''freq'' \<mapsto> Fin 0, ''temp'' \<mapsto> Fin 0])"

text \<open>\<^verbatim>\<open>initializeSimulatedData\<close> (lines 106-115) replaces the whole metric set.\<close>

definition initializeSimulatedData :: perfdata where
  "initializeSimulatedData m =
     (case m of
        Disk \<Rightarrow> [''usage'' \<mapsto> Fin 78, ''used'' \<mapsto> Fin 234, ''free'' \<mapsto> Fin 66, ''total'' \<mapsto> Fin 300]
      | Gpu \<Rightarrow> [''usage'' \<mapsto> Fin 45, ''temp'' \<mapsto> Fin 67, ''memory'' \<mapsto> fl (62 / 10)]
      | Proc \<Rightarrow> [''usage'' \<mapsto> Fin 32, ''cores'' \<mapsto> Fin 8, ''threads'' \<mapsto> Fin 16]
      | Ram \<Rightarrow> [''usage'' \<mapsto> Fin 67, ''used'' \<mapsto> fl (107 / 10), ''total'' \<mapsto> Fin 16]
      | Cpu \<Rightarrow> [''usage'' \<mapsto> Fin 28, ''freq'' \<mapsto> fl (32 / 10), ''temp'' \<mapsto> Fin 52])"

section \<open>The rendered document\<close>

text \<open>
  The HTML is not part of script.js, so the document is a parameter: which elements
  exist under which id, and which metric cards carry a status indicator. A text is
  kept as the pieces of its template literal; \<open>Val v\<close> stands for the value \<open>v\<close>
  converted to a string (\<open>None\<close> for \<^verbatim>\<open>undefined\<close>).
\<close>

datatype piece = Lit string | Val "jsnum option"

record node =
  textContent :: "piece list"
  style_width :: "piece list"
  style_animation :: string

text \<open>
  For navigation the document is seen as the list of its elements in document order,
  each with its id, its \<^verbatim>\<open>data-page\<close> attribute, and whether its class list holds
  \<^verbatim>\<open>nav-btn\<close>, \<^verbatim>\<open>page\<close> and \<^verbatim>\<open>active\<close>. The script changes no class but \<^verbatim>\<open>active\<close>.
\<close>

record element =
  elem_id :: "string option"
  data_page :: "string option"
  nav_btn :: bool
  page :: bool
  active :: bool

record ui =
  nodes :: "string \<rightharpoonup> node"
  indicators :: "string \<rightharpoonup> string"
  elements :: "element list"

text \<open>
  \<open>nodes u i\<close> is \<^verbatim>\<open>document.getElementById(i)\<close>; \<open>indicators u m\<close> is the
  \<^verbatim>\<open>style.background\<close> of the \<^verbatim>\<open>.status-indicator\<close> inside the card tagged
  \<^verbatim>\<open>data-metric="m"\<close>, and \<open>None\<close> when the card or the indicator is missing.
\<close>

definition set_textContent :: "string \<Rightarrow> piece list \<Rightarrow> ui \<Rightarrow> ui" where
  "set_textContent i t u =
     (case nodes u i of
        None \<Rightarrow> u
      | Some n \<Rightarrow> u\<lparr>nodes := (nodes u)(i \<mapsto> n\<lparr>textContent := t\<rparr>)\<rparr>)"

definition updateValueElement :: "string \<Rightarrow> reading \<Rightarrow> ui \<Rightarrow> ui" where
  "updateValueElement metric data u =
     (case nodes u (metric @ ''-value'') of
        None \<Rightarrow> u
      | Some n \<Rightarrow> u\<lparr>nodes := (nodes u)(metric @ ''-value'' \<mapsto>
          n\<lparr>textContent := [Val (data ''usage''), Lit ''%''],
            style_animation := ''valueFlicker 0.5s ease-in-out''\<rparr>)\<rparr>)"

definition updateFillElement :: "string \<Rightarrow> reading \<Rightarrow> ui \<Rightarrow> ui" where
  "updateFillElement metric data u =
     (case nodes u (metric @ ''-fill'') of
        None \<Rightarrow> u
      | Some n \<Rightarrow> u\<lparr>nodes := (nodes u)(metric @ ''-fill'' \<mapsto>
          n\<lparr>style_width := [Val (data ''usage''), Lit ''%'']\<rparr>)\<rparr>)"

definition degreeC :: string where
  "degreeC = [CHR 0xB0, CHR ''C'']"

definition updateMetricDetails :: "string \<Rightarrow> reading \<Rightarrow> ui \<Rightarrow> ui" where
  "updateMetricDetails metric data u =
     (if metric = ''disk'' then
        set_textContent ''disk-free'' [Lit ''Free: '', Val (data ''free''), Lit '' GB'']
          (set_textContent ''disk-used'' [Lit ''Used: '', Val (data ''used''), Lit '' GB''] u)
      else if metric = ''gpu'' then
        set_textContent ''gpu-memory'' [Lit ''Memory: '', Val (data ''memory''), Lit '' GB'']
          (set_textContent ''gpu-temp'' [Lit ''Temp: '', Val (data ''temp''), Lit degreeC] u)
      else if metric = ''ram'' then
        set_textContent ''ram-used'' [Lit ''Used: '', Val (data ''used''), Lit '' GB''] u
      else if metric = ''cpu'' then
        set_textContent ''cpu-temp'' [Lit ''Temp: '', Val (data ''temp''), Lit degreeC]
          (set_textContent ''cpu-freq'' [Lit ''Freq: '', Val (data ''freq''), Lit '' GHz''] u)
      else u)"

text \<open>The two thresholds of \<^verbatim>\<open>updateStatusIndicator\<close> (lines 286-292).\<close>

definition status_background :: "jsnum \<Rightarrow> string" where
  "status_background u =
     (if js_gt u (Fin 80) then ''#ff4444''
      else if js_gt u (Fin 60) then ''#ffaa00''
      else ''var(--primary-red)'')"

definition updateStatusIndicator :: "string \<Rightarrow> jsnum \<Rightarrow> ui \<Rightarrow> ui" where
  "updateStatusIndicator metric u d =
     (case indicators d metric of
        None \<Rightarrow> d
      | Some _ \<Rightarrow> d\<lparr>indicators := (indicators d)(metric \<mapsto> status_background u)\<rparr>)"

text \<open>The body of the \<^verbatim>\<open>forEach\<close> in \<^verbatim>\<open>updateUI\<close>, for one key.\<close>

definition render_metric :: "perfdata \<Rightarrow> metric \<Rightarrow> ui \<Rightarrow> ui" where
  "render_metric pd m u =
     (let metric = metric_name m; data = pd m in
      updateStatusIndicator metric (num data ''usage'')
        (updateMetricDetails metric data
          (updateFillElement metric data
            (updateValueElement metric data u))))"

definition updateUI :: "perfdata \<Rightarrow> ui \<Rightarrow> ui" where
  "updateUI pd u = fold (render_metric pd) Object_keys u"

section \<open>The dashboard object and the entry points of the host\<close>

record dash =
  performanceData :: perfdata
  document :: ui
  console :: "string list"

text \<open>
  \<^verbatim>\<open>window.dashboard\<close> is \<open>None\<close> until the DOMContentLoaded handler has built the
  object; every entry point tests it first.
\<close>

type_synonym window = "dash option"

definition clamp_percent :: "jsnum \<Rightarrow> jsnum" where
  "clamp_percent v = Math_max (Fin 0) (Math_min (Fin 100) v)"

definition updateMetric :: "string \<Rightarrow> jsnum \<Rightarrow> dash \<Rightarrow> dash" where
  "updateMetric metric v d =
     (case metric_of_name metric of
        Some m \<Rightarrow>
          (let pd = set_field m ''usage'' (clamp_percent v) (performanceData d)
           in d\<lparr>performanceData := pd, document := updateUI pd (document d)\<rparr>)
      | None \<Rightarrow>
          (if inherited_key metric
           then d\<lparr>document := updateUI (performanceData d) (document d)\<rparr>
           else d))"

definition updatePerformanceMetric :: "string \<Rightarrow> jsnum \<Rightarrow> window \<Rightarrow> window" where
  "updatePerformanceMetric metric v w =
     (case w of None \<Rightarrow> None | Some d \<Rightarrow> Some (updateMetric metric v d))"

text \<open>
  \<^verbatim>\<open>Object.assign(target, source)\<close> copies every property of the source: the map
  override. The argument of \<^verbatim>\<open>updateDashboard\<close> is the list of its keys with their
  partial readings, in key order.
\<close>

definition Object_assign :: "reading \<Rightarrow> reading \<Rightarrow> reading" where
  "Object_assign target source = target ++ source"

definition merge_metric :: "string \<times> reading \<Rightarrow> perfdata \<Rightarrow> perfdata" where
  "merge_metric entry pd =
     (case metric_of_name (fst entry) of
        Some m \<Rightarrow> pd(m := Object_assign (pd m) (snd entry))
      | None \<Rightarrow> pd)"

definition updateDashboard :: "(string \<times> reading) list \<Rightarrow> window \<Rightarrow> window" where
  "updateDashboard data w =
     (case w of
        None \<Rightarrow> None
      | Some d \<Rightarrow>
          (let pd = fold merge_metric data (performanceData d)
           in Some (d\<lparr>performanceData := pd, document := updateUI pd (document d)\<rparr>)))"

section \<open>The refresh tick\<close>

text \<open>
  What a tick takes from its environment: the successive readings of
  \<^verbatim>\<open>performance.now()\<close>, the heap statistics \<^verbatim>\<open>(usedJSHeapSize, totalJSHeapSize)\<close>
  when \<^verbatim>\<open>performance\<close> has a \<^verbatim>\<open>memory\<close> member, one \<^verbatim>\<open>Math.random()\<close> draw for
  each place that uses one (all of them doubles), and where an exception comes up.
  With numbers in every field no statement of a tick raises by itself; an exception can
  only come out of a call into the host (the clock, the heap statistics, the document).
  Such a call stands between two writes of the tick, so what a raise leaves behind is
  the writes before it: \<open>raise_at = Some k\<close> says that the \<^verbatim>\<open>try\<close> block raises when
  \<open>k\<close> of its writes are done, \<open>handler_raise_at\<close> the same for the handler, and \<open>None\<close>
  that nothing raises.
\<close>

record tick_env =
  clock :: "rat list"
  memory :: "(rat \<times> rat) option"
  rnd_gpu :: rat
  rnd_proc :: rat
  rnd_gate :: rat
  rnd_disk :: rat
  rnd_fallback :: "metric \<Rightarrow> rat"
  raise_at :: "nat option"
  handler_raise_at :: "nat option"

text \<open>
  A write of the tick, as a change of the state, and a sequence of writes run to its
  end. \<open>assign m k rhs\<close> is \<^verbatim>\<open>this.performanceData.m.k = rhs\<close>, the right-hand side
  read from the metric set as it is then; \<open>on_document\<close> is a write into the document.
\<close>

type_synonym effect = "dash \<Rightarrow> dash"

definition run :: "effect list \<Rightarrow> dash \<Rightarrow> dash" where
  "run fs d = fold (\<lambda>f. f) fs d"

definition assign :: "metric \<Rightarrow> string \<Rightarrow> (perfdata \<Rightarrow> jsnum) \<Rightarrow> effect" where
  "assign m k rhs d =
     d\<lparr>performanceData := set_field m k (rhs (performanceData d)) (performanceData d)\<rparr>"

definition on_document :: "(perfdata \<Rightarrow> ui \<Rightarrow> ui) \<Rightarrow> effect" where
  "on_document w d = d\<lparr>document := w (performanceData d) (document d)\<rparr>"

definition targetTime :: rat where
  "targetTime = 10"

text \<open>
  The busy loop of \<^verbatim>\<open>measureCPUUsage\<close> (lines 154-157) reads the clock once per test
  and writes nothing. It leaves the loop at the first reading for which
  \<^verbatim>\<open>performance.now() - start < targetTime\<close> is false; when the readings run out
  before, the loop has not ended: \<open>None\<close>.
\<close>

fun busy_loop :: "rat \<Rightarrow> nat \<Rightarrow> rat list \<Rightarrow> (nat \<times> rat list) option" where
  "busy_loop start iterations [] = None"
| "busy_loop start iterations (now # later) =
     (if js_gt (Fin targetTime) (js_sub (Fin now) (Fin start))
      then busy_loop start (Suc iterations) later
      else Some (iterations, later))"

text \<open>
  Lines 148-159: the start, the loop, and one more reading for \<open>actualTime\<close>.
\<close>

definition busy_wait :: "rat list \<Rightarrow> jsnum option" where
  "busy_wait readings =
     (case readings of
        [] \<Rightarrow> None
      | start # rest \<Rightarrow>
          (case busy_loop start 0 rest of
             None \<Rightarrow> None
           | Some (iterations, later) \<Rightarrow>
               (case later of
                  [] \<Rightarrow> None
                | now # _ \<Rightarrow> Some (js_sub (Fin now) (Fin start)))))"

definition estimatedUsage :: "jsnum \<Rightarrow> jsnum" where
  "estimatedUsage actualTime =
     (let efficiency = js_div (Fin targetTime) actualTime
      in Math_max (Fin 0) (Math_min (Fin 100) (js_mul (js_sub (Fin 1) efficiency) (Fin 100))))"

text \<open>The three writes of \<^verbatim>\<open>measureCPUUsage\<close> (lines 166-170).\<close>

definition measureCPUUsage_effects :: "jsnum \<Rightarrow> effect list" where
  "measureCPUUsage_effects actualTime =
     [assign Cpu ''usage'' (\<lambda>pd.
        Math_round (js_add (js_mul (usage pd Cpu) (fl (7 / 10)))
                           (js_mul (estimatedUsage actualTime) (fl (3 / 10))))),
      assign Cpu ''temp'' (\<lambda>pd.
        Math_round (js_add (Fin 35) (js_mul (usage pd Cpu) (fl (4 / 10))))),
      assign Cpu ''freq'' (\<lambda>pd.
        toFixed1 (js_add (fl (28 / 10)) (js_mul (usage pd Cpu) (fl (1 / 100)))))]"

definition measureCPUUsage :: "rat list \<Rightarrow> dash \<Rightarrow> dash option" where
  "measureCPUUsage readings d =
     (case busy_wait readings of
        None \<Rightarrow> None
      | Some actualTime \<Rightarrow> Some (run (measureCPUUsage_effects actualTime) d))"

definition GB :: rat where
  "GB = 1024 * 1024 * 1024"

text \<open>The two writes of \<^verbatim>\<open>measureMemoryUsage\<close> (lines 179-180), none without heap statistics.\<close>

definition measureMemoryUsage_effects :: "(rat \<times> rat) option \<Rightarrow> effect list" where
  "measureMemoryUsage_effects mem =
     (case mem of
        None \<Rightarrow> []
      | Some (usedJSHeapSize, totalJSHeapSize) \<Rightarrow>
          [assign Ram ''used'' (\<lambda>pd. toFixed1 (js_div (Fin usedJSHeapSize) (Fin GB))),
           assign Ram ''usage'' (\<lambda>pd.
             Math_round (js_mul (js_div (js_div (Fin usedJSHeapSize) (Fin GB))
                                        (num (pd Ram) ''total'')) (Fin 100)))])"

text \<open>
  \<^verbatim>\<open>usage += (Math.random() - 0.5) * width\<close>, then the clamp, then the rounding: three
  writes of the same field.
\<close>

definition nudge_effects :: "metric \<Rightarrow> rat \<Rightarrow> rat \<Rightarrow> rat \<Rightarrow> rat \<Rightarrow> effect list" where
  "nudge_effects m r width lo hi =
     [assign m ''usage'' (\<lambda>pd.
        js_add (usage pd m) (js_mul (js_sub (Fin r) (Fin (1 / 2))) (Fin width))),
      assign m ''usage'' (\<lambda>pd. Math_max (Fin lo) (Math_min (Fin hi) (usage pd m))),
      assign m ''usage'' (\<lambda>pd. Math_round (usage pd m))]"

text \<open>\<^verbatim>\<open>simulateOtherMetrics\<close> (lines 184-211): the GPU, the processor, and the disk behind its gate.\<close>

definition simulate_gpu_effects :: "rat \<Rightarrow> effect list" where
  "simulate_gpu_effects r =
     nudge_effects Gpu r 10 20 90 @
     [assign Gpu ''temp'' (\<lambda>pd.
        Math_round (js_add (Fin 45) (js_mul (usage pd Gpu) (Fin (1 / 2))))),
      assign Gpu ''memory'' (\<lambda>pd.
        toFixed1 (js_add (Fin 4) (js_mul (usage pd Gpu) (fl (5 / 100)))))]"

definition simulate_disk_effects :: "rat \<Rightarrow> rat \<Rightarrow> effect list" where
  "simulate_disk_effects gate r =
     (if js_gt (fl (1 / 10)) (Fin gate) then
        nudge_effects Disk r 2 60 95 @
        [assign Disk ''used'' (\<lambda>pd.
           Math_round (js_mul (js_div (usage pd Disk) (Fin 100)) (num (pd Disk) ''total''))),
         assign Disk ''free'' (\<lambda>pd.
           js_sub (num (pd Disk) ''total'') (num (pd Disk) ''used''))]
      else [])"

definition simulateOtherMetrics_effects :: "tick_env \<Rightarrow> effect list" where
  "simulateOtherMetrics_effects e =
     simulate_gpu_effects (rnd_gpu e) @
     nudge_effects Proc (rnd_proc e) 8 15 85 @
     simulate_disk_effects (rnd_gate e) (rnd_disk e)"

text \<open>\<^verbatim>\<open>simulateAllMetrics\<close> (lines 213-223): every key but disk, in key order.\<close>

definition simulateAllMetrics_effects :: "tick_env \<Rightarrow> effect list" where
  "simulateAllMetrics_effects e =
     concat (map (\<lambda>key. if metric_name key \<noteq> ''disk''
                         then nudge_effects key (rnd_fallback e key) 10 10 90 else [])
       Object_keys)"

definition simulateAllMetrics :: "tick_env \<Rightarrow> dash \<Rightarrow> dash" where
  "simulateAllMetrics e d = run (simulateAllMetrics_effects e) d"

text \<open>
  \<^verbatim>\<open>updateUI\<close> (lines 225-279, 281-294) write by write: for each key the value text, its
  animation, the bar width, the detail texts of the metric and the colour of the
  indicator, each one skipped when its element is missing.
\<close>

definition set_style_animation :: "string \<Rightarrow> string \<Rightarrow> ui \<Rightarrow> ui" where
  "set_style_animation i a u =
     (case nodes u i of
        None \<Rightarrow> u
      | Some n \<Rightarrow> u\<lparr>nodes := (nodes u)(i \<mapsto> n\<lparr>style_animation := a\<rparr>)\<rparr>)"

definition set_style_width :: "string \<Rightarrow> piece list \<Rightarrow> ui \<Rightarrow> ui" where
  "set_style_width i w u =
     (case nodes u i of
        None \<Rightarrow> u
      | Some n \<Rightarrow> u\<lparr>nodes := (nodes u)(i \<mapsto> n\<lparr>style_width := w\<rparr>)\<rparr>)"

definition details_effects :: "metric \<Rightarrow> effect list" where
  "details_effects m =
     (case m of
        Disk \<Rightarrow>
          [on_document (\<lambda>pd. set_textContent ''disk-used'' [Lit ''Used: '', Val (pd Disk ''used''), Lit '' GB'']),
           on_document (\<lambda>pd. set_textContent ''disk-free'' [Lit ''Free: '', Val (pd Disk ''free''), Lit '' GB''])]
      | Gpu \<Rightarrow>
          [on_document (\<lambda>pd. set_textContent ''gpu-temp'' [Lit ''Temp: '', Val (pd Gpu ''temp''), Lit degreeC]),
           on_document (\<lambda>pd. set_textContent ''gpu-memory'' [Lit ''Memory: '', Val (pd Gpu ''memory''), Lit '' GB''])]
      | Proc \<Rightarrow> []
      | Ram \<Rightarrow>
          [on_document (\<lambda>pd. set_textContent ''ram-used'' [Lit ''Used: '', Val (pd Ram ''used''), Lit '' GB''])]
      | Cpu \<Rightarrow>
          [on_document (\<lambda>pd. set_textContent ''cpu-freq'' [Lit ''Freq: '', Val (pd Cpu ''freq''), Lit '' GHz'']),
           on_document (\<lambda>pd. set_textContent ''cpu-temp'' [Lit ''Temp: '', Val (pd Cpu ''temp''), Lit degreeC])])"

definition render_metric_effects :: "metric \<Rightarrow> effect list" where
  "render_metric_effects m =
     [on_document (\<lambda>pd. set_textContent (metric_name m @ ''-value'') [Val (pd m ''usage''), Lit ''%'']),
      on_document (\<lambda>pd. set_style_animation (metric_name m @ ''-value'') ''valueFlicker 0.5s ease-in-out''),
      on_document (\<lambda>pd. set_style_width (metric_name m @ ''-fill'') [Val (pd m ''usage''), Lit ''%''])] @
     details_effects m @
     [on_document (\<lambda>pd. updateStatusIndicator (metric_name m) (num (pd m) ''usage''))]"

definition updateUI_effects :: "effect list" where
  "updateUI_effects = concat (map render_metric_effects Object_keys)"

text \<open>
  How a call ends: it returns, an exception leaves it (the state is what the call had
  written by then), or it never ends.
\<close>

datatype 'a completion = Returns 'a | Throws 'a | Hangs

text \<open>
  A sequence of writes with a raise after \<open>k\<close> of them. A \<open>k\<close> beyond the last write
  is a raise that does not happen.
\<close>

definition run_until :: "nat option \<Rightarrow> effect list \<Rightarrow> dash \<Rightarrow> dash completion" where
  "run_until raise fs d =
     (case raise of
        None \<Rightarrow> Returns (run fs d)
      | Some k \<Rightarrow> if k \<le> length fs then Throws (run (take k fs) d) else Returns (run fs d))"

text \<open>
  The \<^verbatim>\<open>try\<close> block of \<^verbatim>\<open>updatePerformanceMetrics\<close> (lines 128-139). A raise before the
  first write needs no clock; any other way through the block goes through the busy
  loop first.
\<close>

definition try_effects :: "tick_env \<Rightarrow> jsnum \<Rightarrow> effect list" where
  "try_effects e actualTime =
     measureCPUUsage_effects actualTime @
     measureMemoryUsage_effects (memory e) @
     simulateOtherMetrics_effects e @
     updateUI_effects"

definition try_block :: "tick_env \<Rightarrow> dash \<Rightarrow> dash completion" where
  "try_block e d =
     (if raise_at e = Some 0 then Throws d
      else case busy_wait (clock e) of
        None \<Rightarrow> Hangs
      | Some actualTime \<Rightarrow> run_until (raise_at e) (try_effects e actualTime) d)"

text \<open>The handler (lines 140-144): the log line, the fallback simulation, the render.\<close>

definition console_log :: "string \<Rightarrow> effect" where
  "console_log s d = d\<lparr>console := console d @ [s]\<rparr>"

definition catch_effects :: "tick_env \<Rightarrow> effect list" where
  "catch_effects e =
     console_log ''[v0] Error updating metrics, using simulated data'' #
     simulateAllMetrics_effects e @
     updateUI_effects"

definition catch_block :: "tick_env \<Rightarrow> dash \<Rightarrow> dash completion" where
  "catch_block e d = run_until (handler_raise_at e) (catch_effects e) d"

definition updatePerformanceMetrics :: "tick_env \<Rightarrow> dash \<Rightarrow> dash completion" where
  "updatePerformanceMetrics e d =
     (case try_block e d of
        Returns d' \<Rightarrow> Returns d'
      | Throws d' \<Rightarrow> catch_block e d'
      | Hangs \<Rightarrow> Hangs)"

text \<open>
  \<^verbatim>\<open>startRealTimeUpdates\<close>: the timer is registered first and never cleared, then the
  first tick runs at once; each later tick is a firing of the timer. An exception that
  leaves a tick is reported by the browser and does not cancel the timer, so the next
  tick starts from the state the failed one left. One environment per tick; \<open>None\<close>
  when a tick never ends.
\<close>

fun startRealTimeUpdates :: "tick_env list \<Rightarrow> dash \<Rightarrow> dash option" where
  "startRealTimeUpdates [] d = Some d"
| "startRealTimeUpdates (e # es) d =
     (case updatePerformanceMetrics e d of
        Returns d' \<Rightarrow> startRealTimeUpdates es d'
      | Throws d' \<Rightarrow> startRealTimeUpdates es d'
      | Hangs \<Rightarrow> None)"

section \<open>Navigation\<close>

text \<open>
  The first element of the document that matches, as an index. An attribute selector
  \<^verbatim>\<open>[data-page="t"]\<close> finds the first element whose attribute is the string \<open>t\<close>; that
  holds for an identifier the selector can quote as it is (\<open>plain_identifier\<close>: no
  quote, backslash, line break or NUL in it), and the theorems on navigation are about
  such identifiers. \<^verbatim>\<open>getElementById\<close> finds nothing for the empty string.
\<close>

fun querySelector :: "(element \<Rightarrow> bool) \<Rightarrow> element list \<Rightarrow> nat option" where
  "querySelector P [] = None"
| "querySelector P (x # xs) = (if P x then Some 0 else map_option Suc (querySelector P xs))"

definition plain_identifier :: "string \<Rightarrow> bool" where
  "plain_identifier t \<longleftrightarrow>
     list_all (\<lambda>c. c \<notin> set [CHR 0x22, CHR 0x5C, CHR 0x0A, CHR 0x0D, CHR 0x0C, CHR 0x00]) t"

definition getElementById :: "string \<Rightarrow> element list \<Rightarrow> nat option" where
  "getElementById i xs = (if i = [] then None else querySelector (\<lambda>x. elem_id x = Some i) xs)"

definition classList_remove_active :: "element \<Rightarrow> element" where
  "classList_remove_active x = x\<lparr>active := False\<rparr>"

definition classList_add_active :: "nat \<Rightarrow> element list \<Rightarrow> element list" where
  "classList_add_active i xs = xs[i := (xs ! i)\<lparr>active := True\<rparr>]"

text \<open>
  \<^verbatim>\<open>switchPage\<close> (lines 21-34). \<open>navButtons\<close> and \<open>pages\<close> are the elements of class
  \<^verbatim>\<open>nav-btn\<close> and \<^verbatim>\<open>page\<close>; the two lookups go over the whole document.
\<close>

definition switchPage :: "string \<Rightarrow> element list \<Rightarrow> element list" where
  "switchPage targetPage xs =
     (let xs1 = map (\<lambda>btn. if nav_btn btn then classList_remove_active btn else btn) xs;
          xs2 = map (\<lambda>pg. if page pg then classList_remove_active pg else pg) xs1;
          activeButton = querySelector (\<lambda>x. data_page x = Some targetPage) xs2;
          activePage = getElementById targetPage xs2
      in case activeButton of
           None \<Rightarrow> xs2
         | Some b \<Rightarrow>
             (case activePage of
                None \<Rightarrow> xs2
              | Some p \<Rightarrow> classList_add_active p (classList_add_active b xs2)))"

text \<open>
  The click listener \<^verbatim>\<open>initializeNavigation\<close> puts on every navigation button, run
  for the element at index \<open>i\<close>: a button without the attribute passes \<^verbatim>\<open>undefined\<close>,
  which both lookups turn into that word. The ripple that follows changes no class.
\<close>

definition dataset_page :: "element \<Rightarrow> string" where
  "dataset_page x = (case data_page x of Some t \<Rightarrow> t | None \<Rightarrow> ''undefined'')"

definition nav_listener :: "nat \<Rightarrow> element list \<Rightarrow> element list" where
  "nav_listener i xs =
     (if i < length xs \<and> nav_btn (xs ! i) then switchPage (dataset_page (xs ! i)) xs else xs)"

text \<open>
  A click travels from the element clicked up through its ancestors, and the listener
  of each navigation button on the way runs. The path is the element followed by its
  ancestors, nearest first.
\<close>

definition click :: "nat list \<Rightarrow> element list \<Rightarrow> element list" where
  "click path xs = fold nav_listener path xs"

text \<open>
  What the two \<^verbatim>\<open>forEach\<close> loops of \<^verbatim>\<open>switchPage\<close> (lines 23-24) do to one element.
\<close>

definition deactivate :: "element \<Rightarrow> element" where
  "deactivate x = (if nav_btn x \<or> page x then x\<lparr>active := False\<rparr> else x)"

section \<open>The outbound channel\<close>

text \<open>
  Lines 331-586 register one click listener per statement on the first element that
  matches an attribute selector. A listener either posts its message or, with the
  channel missing, does nothing (\<open>Post\<close>); the first two also log then (\<open>PostOrLog\<close>).
\<close>

datatype attr = DataAction | DataMod

datatype listener = Post string | PostOrLog string

definition registrations :: "((attr \<times> string) \<times> listener) list" where
  "registrations =
    [((DataAction, ''full-clean''), PostOrLog ''full-clean''),
     ((DataAction, ''clean-ram''), PostOrLog ''clean-ram''),
     ((DataAction, ''full-clean''), Post ''full-clean''),
     ((DataAction, ''clean-ram''), Post ''clean-ram''),
     ((DataAction, ''ip-flush''), Post ''ip-flush''),
     ((DataAction, ''reset-firewall''), Post ''reset-firewall''),
     ((DataAction, ''clear-temp''), Post ''clear-temp''),
     ((DataAction, ''kill-emulator''), Post ''kill-emulator''),
     ((DataAction, ''fix-98''), Post ''fix-98''),
     ((DataAction, ''environment-fix''), Post ''environment-fix''),
     ((DataMod, ''super-smooth''), Post ''super-smooth''),
     ((DataMod, ''ultra-hd''), Post ''ultra-hd''),
     ((DataMod, ''hdr''), Post ''hdr''),
     ((DataMod, ''smooth''), Post ''smooth''),
     ((DataMod, ''t-box-speed''), Post ''t-box-speed''),
     ((DataAction, ''park-control''), Post ''park-control''),
     ((DataAction, ''timer-resolution''), Post ''timer-resolution''),
     ((DataAction, ''cru''), Post ''cru''),
     ((DataAction, ''filterkeys''), Post ''filterkeys''),
     ((DataAction, ''optimized-tweak''), Post ''optimized-tweak''),
     ((DataAction, ''debloat''), Post ''debloat''),
     ((DataAction, ''control-panel''), Post ''control-panel''),
     ((DataAction, ''visual-effects''), Post ''visual-effects''),
     ((DataAction, ''msconfig''), Post ''msconfig''),
     ((DataAction, ''windows-update-blocker''), Post ''windows-update-blocker''),
     ((DataAction, ''defender-control''), Post ''defender-control''),
     ((DataAction, ''nx-script''), Post ''nx-script''),
     ((DataAction, ''basic''), Post ''basic''),
     ((DataAction, ''advanced''), Post ''advanced''),
     ((DataAction, ''ultimate''), Post ''ultimate''),
     ((DataAction, ''windows-10-activation''), Post ''windows-10-activation''),
     ((DataAction, ''basicF''), Post ''basicF''),
     ((DataAction, ''advancedF''), Post ''advancedF''),
     ((DataAction, ''ultimateF''), Post ''ultimateF''),
     ((DataAction, ''commend''), Post ''commend''),
     ((DataAction, ''cleanF''), Post ''cleanF'')]"

text \<open>
  \<open>chrome_webview\<close> is \<open>None\<close> when \<^verbatim>\<open>window.chrome\<close> is missing and \<open>Some b\<close> when
  it is there, \<open>b\<close> telling whether it has a \<^verbatim>\<open>webview\<close>. \<open>posted\<close> is what
  \<^verbatim>\<open>postMessage\<close> has been given so far, \<open>logged\<close> what \<^verbatim>\<open>console.log\<close> has.
\<close>

record host =
  chrome_webview :: "bool option"
  posted :: "string list"
  logged :: "string list"

definition channel_available :: "host \<Rightarrow> bool" where
  "channel_available h \<longleftrightarrow> chrome_webview h = Some True"

fun run_listener :: "listener \<Rightarrow> host \<Rightarrow> host" where
  "run_listener (Post m) h =
     (if channel_available h then h\<lparr>posted := posted h @ [m]\<rparr> else h)"
| "run_listener (PostOrLog m) h =
     (if channel_available h then h\<lparr>posted := posted h @ [m]\<rparr>
      else h\<lparr>logged := logged h @ [''WebView host not available'']\<rparr>)"

text \<open>
  The statements run in order when the script loads. \<open>finds\<close> is the document's answer
  to each selector: the element it finds (elements are of any type \<open>'x\<close>), or nothing.
  On nothing the call of \<^verbatim>\<open>addEventListener\<close> on \<^verbatim>\<open>null\<close> throws and the script stops
  there: the listeners before it are installed, the ones after it are not.
\<close>

fun install :: "(attr \<times> string \<Rightarrow> 'x option) \<Rightarrow> ((attr \<times> string) \<times> listener) list \<Rightarrow> ('x \<times> listener) list" where
  "install finds [] = []"
| "install finds (r # rs) =
     (case finds (fst r) of
        None \<Rightarrow> []
      | Some x \<Rightarrow> (x, snd r) # install finds rs)"

definition listeners_on :: "(attr \<times> string \<Rightarrow> 'x option) \<Rightarrow> 'x \<Rightarrow> listener list" where
  "listeners_on finds x = map snd (filter (\<lambda>r. fst r = x) (install finds registrations))"

definition catalog :: "(attr \<times> string) list" where
  "catalog = remdups (map fst registrations)"

text \<open>
  A click travels from the element clicked up through its ancestors; on each element of
  the path its listeners run in the order of their registration.
\<close>

definition click_control :: "(attr \<times> string \<Rightarrow> 'x option) \<Rightarrow> 'x list \<Rightarrow> host \<Rightarrow> host" where
  "click_control finds path h =
     fold (\<lambda>x h. fold run_listener (listeners_on finds x) h) path h"

section \<open>Sample inputs of the theorems\<close>

text \<open>A document with every element \<^verbatim>\<open>updateUI\<close> looks up, all of them empty.\<close>

definition blank_node :: node where
  "blank_node = \<lparr>textContent = [], style_width = [], style_animation = []\<rparr>"

definition sample_document :: ui where
  "sample_document =
     \<lparr>nodes = (\<lambda>i. if i \<in> set [''disk-value'', ''disk-fill'', ''disk-used'', ''disk-free'',
         ''gpu-value'', ''gpu-fill'', ''gpu-temp'', ''gpu-memory'', ''proc-value'', ''proc-fill'',
         ''ram-value'', ''ram-fill'', ''ram-used'', ''cpu-value'', ''cpu-fill'', ''cpu-freq'',
         ''cpu-temp''] then Some blank_node else None),
      indicators = (\<lambda>m. if m \<in> set [''disk'', ''gpu'', ''proc'', ''ram'', ''cpu''] then Some [] else None),
      elements = []\<rparr>"

definition sample_dash :: dash where
  "sample_dash =
     \<lparr>performanceData = initializeSimulatedData, document = sample_document, console = []\<rparr>"

text \<open>
  A tick of 12 ms from start to last reading, with heap statistics and the disk gate
  open; \<open>raising_env k j\<close> is the same tick with a raise after \<open>k\<close> writes of the block
  and after \<open>j\<close> writes of the handler.
\<close>

definition sample_env :: tick_env where
  "sample_env =
     \<lparr>clock = [0, 3, 11, 12], memory = Some (8 * GB, 9 * GB), rnd_gpu = 1 / 2, rnd_proc = 1 / 4,
      rnd_gate = 1 / 32, rnd_disk = 3 / 4, rnd_fallback = (\<lambda>_. 3 / 4),
      raise_at = None, handler_raise_at = None\<rparr>"

definition raising_env :: "nat option \<Rightarrow> nat option \<Rightarrow> tick_env" where
  "raising_env k j = sample_env\<lparr>raise_at := k, handler_raise_at := j\<rparr>"

text \<open>A tick of exactly 10 ms, so that the estimate is 0, from a cpu usage of 45.\<close>

definition tie_env :: tick_env where
  "tie_env = sample_env\<lparr>clock := [0, 10, 10]\<rparr>"

definition tie_dash :: dash where
  "tie_dash = sample_dash\<lparr>performanceData := set_field Cpu ''usage'' (Fin 45) initializeSimulatedData\<rparr>"

text \<open>
  Two navigation buttons and one page: the home button and the home page are active,
  the settings button has no page.
\<close>

definition sample_elements :: "element list" where
  "sample_elements =
     [\<lparr>elem_id = None, data_page = Some ''home'', nav_btn = True, page = False, active = True\<rparr>,
      \<lparr>elem_id = None, data_page = Some ''settings'', nav_btn = True, page = False, active = False\<rparr>,
      \<lparr>elem_id = Some ''home'', data_page = None, nav_btn = False, page = True, active = True\<rparr>]"

text \<open>The same with a page for the settings button.\<close>

definition sample_pages :: "element list" where
  "sample_pages = sample_elements @
     [\<lparr>elem_id = Some ''settings'', data_page = None, nav_btn = False, page = True, active = False\<rparr>]"

text \<open>
  A document that has every control of the catalog, each an element of its own, here
  named by its selector.
\<close>

definition sample_finds :: "attr \<times> string \<Rightarrow> (attr \<times> string) option" where
  "sample_finds c = (if c \<in> set catalog then Some c else None)"

definition silent_host :: host where
  "silent_host = \<lparr>chrome_webview = None, posted = [], logged = []\<rparr>"

definition webview_host :: host where
  "webview_host = \<lparr>chrome_webview = Some True, posted = [], logged = []\<rparr>"

section \<open>Lemmas: metric names and fields\<close>

lemma metric_of_name_metric_name [simp]: "metric_of_name (metric_name m) = Some m"
  by (cases m) (simp_all add: metric_of_name_def)


lemma usage_set_field_same [simp]: "usage (set_field m ''usage'' v pd) m = v"
  by (simp add: usage_def set_field_def num_def)

lemma set_field_other [simp]: "m' \<noteq> m \<Longrightarrow> set_field m k v pd m' = pd m'"
  by (simp add: set_field_def)

lemma set_field_other_key [simp]: "k' \<noteq> k \<Longrightarrow> set_field m k v pd m' k' = pd m' k'"
  by (simp add: set_field_def)

lemma clamp_percent_Fin: "clamp_percent (Fin x) = Fin (max 0 (min 100 x))"
  by (simp add: clamp_percent_def)

section \<open>Lemmas: rendering\<close>

lemma indicators_set_textContent [simp]:
  "indicators (set_textContent i t u) = indicators u"
  by (simp add: set_textContent_def split: option.splits)

lemma indicators_updateValueElement [simp]:
  "indicators (updateValueElement k r u) = indicators u"
  by (simp add: updateValueElement_def split: option.splits)

lemma indicators_updateFillElement [simp]:
  "indicators (updateFillElement k r u) = indicators u"
  by (simp add: updateFillElement_def split: option.splits)

lemma indicators_updateMetricDetails [simp]:
  "indicators (updateMetricDetails k r u) = indicators u"
  by (simp add: updateMetricDetails_def)

lemma indicators_updateStatusIndicator:
  "indicators (updateStatusIndicator k v u) k' =
     (if k' = k then map_option (\<lambda>_. status_background v) (indicators u k) else indicators u k')"
  by (simp add: updateStatusIndicator_def split: option.splits)

lemma indicators_render_metric:
  "indicators (render_metric pd m u) k =
     (if k = metric_name m then map_option (\<lambda>_. status_background (usage pd m)) (indicators u k)
      else indicators u k)"
  by (simp add: render_metric_def Let_def indicators_updateStatusIndicator usage_def)

lemma metric_name_inject [simp]: "metric_name a = metric_name b \<longleftrightarrow> a = b"
  by (cases a; cases b) simp_all

lemma indicators_updateUI:
  "indicators (updateUI pd u) (metric_name m) =
     map_option (\<lambda>_. status_background (usage pd m)) (indicators u (metric_name m))"
  by (cases m) (simp_all add: updateUI_def Object_keys_def indicators_render_metric option.map_comp comp_def option.map_ident)

lemma status_background_cases:
  "status_background (Fin u) =
     (if 80 < u then ''#ff4444'' else if 60 < u then ''#ffaa00'' else ''var(--primary-red)'')"
  by (simp add: status_background_def)

lemma nodes_set_textContent:
  "nodes (set_textContent i t u) j =
     (if j = i then map_option (\<lambda>n. n\<lparr>textContent := t\<rparr>) (nodes u i) else nodes u j)"
  by (simp add: set_textContent_def split: option.splits)

lemma nodes_updateValueElement:
  "nodes (updateValueElement k r u) j =
     (if j = k @ ''-value''
      then map_option (\<lambda>n. n\<lparr>textContent := [Val (r ''usage''), Lit ''%''],
                              style_animation := ''valueFlicker 0.5s ease-in-out''\<rparr>) (nodes u j)
      else nodes u j)"
  by (simp add: updateValueElement_def split: option.splits)

lemma nodes_updateFillElement:
  "nodes (updateFillElement k r u) j =
     (if j = k @ ''-fill''
      then map_option (\<lambda>n. n\<lparr>style_width := [Val (r ''usage''), Lit ''%'']\<rparr>) (nodes u j)
      else nodes u j)"
  by (simp add: updateFillElement_def split: option.splits)

lemma nodes_updateStatusIndicator [simp]:
  "nodes (updateStatusIndicator k v u) = nodes u"
  by (simp add: updateStatusIndicator_def split: option.splits)

lemma value_node_render_metric:
  "nodes (render_metric pd m' u) (metric_name m @ ''-value'') =
     (if m' = m
      then map_option (\<lambda>n. n\<lparr>textContent := [Val (pd m ''usage''), Lit ''%''],
                              style_animation := ''valueFlicker 0.5s ease-in-out''\<rparr>)
             (nodes u (metric_name m @ ''-value''))
      else nodes u (metric_name m @ ''-value''))"
  by (cases m; cases m')
    (simp_all add: render_metric_def Let_def updateMetricDetails_def nodes_set_textContent
      nodes_updateValueElement nodes_updateFillElement)

lemma value_node_updateUI:
  "nodes (updateUI pd u) (metric_name m @ ''-value'') =
     map_option (\<lambda>n. n\<lparr>textContent := [Val (pd m ''usage''), Lit ''%''],
                            style_animation := ''valueFlicker 0.5s ease-in-out''\<rparr>)
       (nodes u (metric_name m @ ''-value''))"
  by (cases m) (simp_all add: updateUI_def Object_keys_def value_node_render_metric del: metric_name.simps)

lemma fill_node_render_metric:
  "nodes (render_metric pd m' u) (metric_name m @ ''-fill'') =
     (if m' = m
      then map_option (\<lambda>n. n\<lparr>style_width := [Val (pd m ''usage''), Lit ''%'']\<rparr>)
             (nodes u (metric_name m @ ''-fill''))
      else nodes u (metric_name m @ ''-fill''))"
  by (cases m; cases m')
    (simp_all add: render_metric_def Let_def updateMetricDetails_def nodes_set_textContent
      nodes_updateValueElement nodes_updateFillElement)

lemma fill_node_updateUI:
  "nodes (updateUI pd u) (metric_name m @ ''-fill'') =
     map_option (\<lambda>n. n\<lparr>style_width := [Val (pd m ''usage''), Lit ''%'']\<rparr>)
       (nodes u (metric_name m @ ''-fill''))"
  by (cases m) (simp_all add: updateUI_def Object_keys_def fill_node_render_metric del: metric_name.simps)

section \<open>Lemmas: merging host data\<close>


section \<open>Lemmas: the listeners of a control\<close>

lemma install_all:
  "\<forall>r\<in>set rs. finds (fst r) \<noteq> None \<Longrightarrow>
   install finds rs = map (\<lambda>r. (the (finds (fst r)), snd r)) rs"
  by (induction rs) auto

lemma listeners_on_found:
  assumes all: "\<forall>c\<in>set catalog. finds c \<noteq> None"
    and inj: "inj_on finds (set catalog)"
    and c: "c \<in> set catalog"
  shows "listeners_on finds (the (finds c)) = map snd (filter (\<lambda>r. fst r = c) registrations)"
proof -
  have cat: "fst r \<in> set catalog" if "r \<in> set registrations" for r
    using that by (simp add: catalog_def)
  then have "\<forall>r\<in>set registrations. finds (fst r) \<noteq> None"
    using all by blast
  then have i: "install finds registrations = map (\<lambda>r. (the (finds (fst r)), snd r)) registrations"
    by (rule install_all)
  have e: "the (finds (fst r)) = the (finds c) \<longleftrightarrow> fst r = c" if "r \<in> set registrations" for r
  proof
    assume a: "the (finds (fst r)) = the (finds c)"
    from all cat [OF that] c obtain x y where "finds (fst r) = Some x" "finds c = Some y"
      by fastforce
    with a have "finds (fst r) = finds c" by simp
    with inj cat [OF that] c show "fst r = c" by (simp add: inj_on_def)
  qed simp
  have "filter (\<lambda>r. fst r = the (finds c)) (map (\<lambda>r. (the (finds (fst r)), snd r)) registrations)
      = map (\<lambda>r. (the (finds (fst r)), snd r)) (filter (\<lambda>r. fst r = c) registrations)"
    using e by (simp add: filter_map comp_def cong: filter_cong)
  then show ?thesis
    by (simp add: listeners_on_def i comp_def)
qed

lemma listeners_on_unused:
  assumes "\<forall>c\<in>set catalog. finds c \<noteq> Some x"
  shows "listeners_on finds x = []"
proof -
  have "fst p \<noteq> x" if "p \<in> set (install finds rs)" "set (map fst rs) \<subseteq> set catalog" for p rs
    using that assms
  proof (induction rs)
    case Nil
    then show ?case by simp
  next
    case (Cons r rs)
    then show ?case by (cases "finds (fst r)") auto
  qed
  then have "\<forall>p\<in>set (install finds registrations). fst p \<noteq> x"
    by (auto simp: catalog_def)
  then show ?thesis
    by (simp add: listeners_on_def filter_empty_conv)
qed

lemma catalog_listeners:
  "\<forall>c\<in>set catalog.
     map snd (filter (\<lambda>r. fst r = c) registrations) =
       (if c = (DataAction, ''full-clean'') \<or> c = (DataAction, ''clean-ram'')
        then [PostOrLog (snd c), Post (snd c)] else [Post (snd c)])"
  by code_simp

lemma sample_finds_all: "\<forall>c\<in>set catalog. sample_finds c \<noteq> None"
  by (simp add: sample_finds_def)

lemma sample_finds_inj: "inj_on sample_finds (set catalog)"
  by (rule inj_onI) (simp add: sample_finds_def)

lemma sample_catalog:
  "(DataAction, ''full-clean'') \<in> set catalog" "(DataAction, ''clean-ram'') \<in> set catalog"
  "(DataAction, ''ip-flush'') \<in> set catalog" "(DataMod, ''hdr'') \<in> set catalog"
  by code_simp+

section \<open>Lemmas: navigation\<close>

lemma querySelector_None: "querySelector P xs = None \<longleftrightarrow> (\<forall>x\<in>set xs. \<not> P x)"
  by (induction xs) auto

lemma querySelector_Some:
  "querySelector P xs = Some i \<Longrightarrow> i < length xs \<and> P (xs ! i) \<and> (\<forall>j<i. \<not> P (xs ! j))"
proof (induction xs arbitrary: i)
  case Nil
  then show ?case by simp
next
  case (Cons x xs)
  show ?case
  proof (cases "P x")
    case True
    with Cons.prems show ?thesis by simp
  next
    case False
    with Cons.prems obtain k where k: "querySelector P xs = Some k" "i = Suc k"
      by auto
    from Cons.IH [OF k(1)] False k(2) show ?thesis
      by (auto simp: nth_Cons split: nat.splits)
  qed
qed

lemma querySelector_map: "querySelector P (map f xs) = querySelector (\<lambda>x. P (f x)) xs"
  by (induction xs) simp_all

lemma deactivate_fields:
  "data_page (deactivate x) = data_page x" "elem_id (deactivate x) = elem_id x"
  "nav_btn (deactivate x) = nav_btn x" "page (deactivate x) = page x"
  by (simp_all add: deactivate_def)

lemma deactivate_active:
  "active (deactivate x) \<longleftrightarrow> active x \<and> \<not> nav_btn x \<and> \<not> page x"
  by (simp add: deactivate_def)

lemma deactivate_idem: "deactivate (deactivate x) = deactivate x"
  by (simp add: deactivate_def)

lemma deactivate_then_activate:
  "(deactivate x)\<lparr>active := True\<rparr> = x\<lparr>active := True\<rparr>"
  by (simp add: deactivate_def)

lemma remove_both:
  "map (\<lambda>pg. if page pg then classList_remove_active pg else pg)
     (map (\<lambda>btn. if nav_btn btn then classList_remove_active btn else btn) xs) = map deactivate xs"
  by (simp add: classList_remove_active_def deactivate_def)

lemma lookups_after_deactivate:
  "querySelector (\<lambda>x. data_page x = Some t) (map deactivate xs) = querySelector (\<lambda>x. data_page x = Some t) xs"
  "getElementById t (map deactivate xs) = getElementById t xs"
proof -
  show "querySelector (\<lambda>x. data_page x = Some t) (map deactivate xs) = querySelector (\<lambda>x. data_page x = Some t) xs"
    by (simp add: querySelector_map deactivate_fields)
  have "querySelector (\<lambda>x. elem_id x = Some t) (map deactivate xs) = querySelector (\<lambda>x. elem_id x = Some t) xs"
    by (simp add: querySelector_map deactivate_fields)
  then show "getElementById t (map deactivate xs) = getElementById t xs"
    by (simp add: getElementById_def)
qed

lemma switchPage_eq:
  "switchPage t xs =
     (case querySelector (\<lambda>x. data_page x = Some t) xs of
        None \<Rightarrow> map deactivate xs
      | Some b \<Rightarrow>
          (case getElementById t xs of
             None \<Rightarrow> map deactivate xs
           | Some p \<Rightarrow> classList_add_active p (classList_add_active b (map deactivate xs))))"
  unfolding switchPage_def remove_both Let_def lookups_after_deactivate ..

lemma length_classList_add_active: "length (classList_add_active i xs) = length xs"
  by (simp add: classList_add_active_def)

lemma nth_classList_add_active:
  "j < length xs \<Longrightarrow>
   classList_add_active i xs ! j = (if j = i then (xs ! j)\<lparr>active := True\<rparr> else xs ! j)"
  by (cases "i < length xs") (auto simp: classList_add_active_def nth_list_update)

lemma length_switchPage: "length (switchPage t xs) = length xs"
  by (simp add: switchPage_eq length_classList_add_active split: option.splits)

lemma nth_switchPage:
  assumes "querySelector (\<lambda>x. data_page x = Some t) xs = Some b" "getElementById t xs = Some p"
    "j < length xs"
  shows "switchPage t xs ! j =
     (if j = b \<or> j = p then (xs ! j)\<lparr>active := True\<rparr> else deactivate (xs ! j))"
  using assms
  by (simp add: switchPage_eq nth_classList_add_active length_classList_add_active
      deactivate_then_activate)

lemma switchPage_not_found:
  "querySelector (\<lambda>x. data_page x = Some t) xs = None \<or> getElementById t xs = None \<Longrightarrow>
   switchPage t xs = map deactivate xs"
  by (auto simp: switchPage_eq split: option.splits)

lemma querySelector_cong:
  "list_all2 (\<lambda>y x. P y = P x) ys xs \<Longrightarrow> querySelector P ys = querySelector P xs"
  by (induction rule: list_all2_induct) simp_all

lemma switchPage_fields:
  assumes "j < length xs"
  shows "nav_btn (switchPage t xs ! j) = nav_btn (xs ! j)"
    and "page (switchPage t xs ! j) = page (xs ! j)"
    and "data_page (switchPage t xs ! j) = data_page (xs ! j)"
    and "elem_id (switchPage t xs ! j) = elem_id (xs ! j)"
  using assms
  by (simp_all add: switchPage_eq nth_classList_add_active length_classList_add_active
      deactivate_fields split: option.splits)

lemma lookups_after_switchPage:
  "querySelector (\<lambda>x. data_page x = Some t') (switchPage t xs) =
     querySelector (\<lambda>x. data_page x = Some t') xs"
  "getElementById t' (switchPage t xs) = getElementById t' xs"
proof -
  show "querySelector (\<lambda>x. data_page x = Some t') (switchPage t xs) =
     querySelector (\<lambda>x. data_page x = Some t') xs"
    by (rule querySelector_cong)
      (simp add: list_all2_conv_all_nth length_switchPage switchPage_fields)
  have "querySelector (\<lambda>x. elem_id x = Some t') (switchPage t xs) =
     querySelector (\<lambda>x. elem_id x = Some t') xs"
    by (rule querySelector_cong)
      (simp add: list_all2_conv_all_nth length_switchPage switchPage_fields)
  then show "getElementById t' (switchPage t xs) = getElementById t' xs"
    by (simp add: getElementById_def)
qed

lemma switchPage_idem:
  assumes "querySelector (\<lambda>x. data_page x = Some t) xs = Some b" "getElementById t xs = Some p"
  shows "switchPage t (switchPage t xs) = switchPage t xs"
proof (rule nth_equalityI)
  show "length (switchPage t (switchPage t xs)) = length (switchPage t xs)"
    by (simp add: length_switchPage)
next
  fix j assume "j < length (switchPage t (switchPage t xs))"
  then have j: "j < length xs" by (simp add: length_switchPage)
  have "switchPage t (switchPage t xs) ! j =
      (if j = b \<or> j = p then (switchPage t xs ! j)\<lparr>active := True\<rparr>
       else deactivate (switchPage t xs ! j))"
    by (rule nth_switchPage) (simp_all add: lookups_after_switchPage assms length_switchPage j)
  also have "\<dots> = switchPage t xs ! j"
    by (simp add: nth_switchPage [OF assms j] deactivate_idem)
  finally show "switchPage t (switchPage t xs) ! j = switchPage t xs ! j" .
qed

lemma fold_nav_listener_no_button:
  "list_all (\<lambda>j. \<not> (j < length xs \<and> nav_btn (xs ! j))) path \<Longrightarrow> fold nav_listener path xs = xs"
  by (induction path) (auto simp: nav_listener_def)

lemma no_button_after_switchPage:
  "list_all (\<lambda>j. \<not> (j < length xs \<and> nav_btn (xs ! j))) path \<Longrightarrow>
   list_all (\<lambda>j. \<not> (j < length (switchPage t xs) \<and> nav_btn (switchPage t xs ! j))) path"
  by (induction path) (auto simp: length_switchPage switchPage_fields)

lemma click_button:
  assumes "i < length xs" "nav_btn (xs ! i)"
    and "list_all (\<lambda>j. \<not> (j < length xs \<and> nav_btn (xs ! j))) ancestors"
  shows "click (i # ancestors) xs = switchPage (dataset_page (xs ! i)) xs"
proof -
  have "nav_listener i xs = switchPage (dataset_page (xs ! i)) xs"
    using assms(1,2) by (simp add: nav_listener_def)
  moreover have "fold nav_listener ancestors (switchPage (dataset_page (xs ! i)) xs) =
      switchPage (dataset_page (xs ! i)) xs"
    by (rule fold_nav_listener_no_button) (rule no_button_after_switchPage [OF assms(3)])
  ultimately show ?thesis by (simp add: click_def)
qed

section \<open>Status colour (C3)\<close>

text \<open>
  C3. The colour \<^verbatim>\<open>updateUI\<close> gives the status indicator of a metric is the one
  \<open>status_background\<close> computes from the stored usage; for a usage \<open>u\<close> it is the high
  colour on (80, 100], the medium colour on (60, 80] and the normal colour on [0, 60], so
  that 80 is medium and 60 is normal.
\<close>

theorem status_indicator_bands:
  "indicators (updateUI pd d) (metric_name m) =
     map_option (\<lambda>_. status_background (usage pd m)) (indicators d (metric_name m))
   \<and> (80 < u \<and> u \<le> 100 \<longrightarrow> status_background (Fin u) = ''#ff4444'')
   \<and> (60 < u \<and> u \<le> 80 \<longrightarrow> status_background (Fin u) = ''#ffaa00'')
   \<and> (0 \<le> u \<and> u \<le> 60 \<longrightarrow> status_background (Fin u) = ''var(--primary-red)'')
   \<and> status_background (Fin 80) = ''#ffaa00''
   \<and> status_background (Fin 60) = ''var(--primary-red)''"
  by (simp add: indicators_updateUI status_background_cases)

text \<open>The three bands at 90, 70 and 30, and the indicator of the cpu card after a render.\<close>

theorem status_indicator_bands_witness:
  "status_background (Fin 90) = ''#ff4444''
   \<and> status_background (Fin 70) = ''#ffaa00''
   \<and> status_background (Fin 30) = ''var(--primary-red)''
   \<and> indicators (updateUI initializeSimulatedData sample_document) ''cpu'' = Some ''var(--primary-red)''"
  using status_indicator_bands [of initializeSimulatedData sample_document Cpu 90]
    status_indicator_bands [of initializeSimulatedData sample_document Cpu 70]
    status_indicator_bands [of initializeSimulatedData sample_document Cpu 30]
  by (simp add: sample_document_def usage_def num_def initializeSimulatedData_def
      status_background_cases)

section \<open>The single-metric entry point (C4)\<close>

text \<open>
  C4. For a known metric name and a number \<open>v\<close>, \<^verbatim>\<open>window.updatePerformanceMetric\<close>
  (the dashboard being there) stores \<^verbatim>\<open>Math.max(0, Math.min(100, v))\<close> as the usage of
  that metric, which for a finite \<open>v\<close> is \<open>max 0 (min 100 v)\<close>, and renders the new
  metric set.
\<close>

theorem updatePerformanceMetric_stores_clamped:
  "metric_of_name name = Some m \<Longrightarrow>
   \<exists>d'. updatePerformanceMetric name v (Some d) = Some d'
      \<and> performanceData d' m ''usage'' = Some (Math_max (Fin 0) (Math_min (Fin 100) v))
      \<and> (\<forall>x. v = Fin x \<longrightarrow> usage (performanceData d') m = Fin (max 0 (min 100 x)))
      \<and> document d' = updateUI (performanceData d') (document d)"
  by (simp add: updatePerformanceMetric_def updateMetric_def Let_def clamp_percent_def
      set_field_def usage_def num_def)

text \<open>The two examples of the specification: 150 is stored as 100, -30 as 0.\<close>

theorem updatePerformanceMetric_stores_clamped_witness:
  "usage (performanceData (the (updatePerformanceMetric ''cpu'' (Fin 150) (Some sample_dash)))) Cpu = Fin 100
   \<and> usage (performanceData (the (updatePerformanceMetric ''cpu'' (Fin (- 30)) (Some sample_dash)))) Cpu = Fin 0"
proof -
  have k: "metric_of_name ''cpu'' = Some Cpu"
    by (simp add: metric_of_name_def)
  show ?thesis
    using updatePerformanceMetric_stores_clamped [OF k, of "Fin 150" sample_dash]
      updatePerformanceMetric_stores_clamped [OF k, of "Fin (- 30)" sample_dash]
    by auto
qed

section \<open>The merging entry point (C5)\<close>



section \<open>Unclamped host data (C1)\<close>

text \<open>
  C1 fails on the code. \<^verbatim>\<open>updateDashboard({ cpu: { usage: 150 } })\<close> on the sample
  dashboard stores 150 as the cpu usage and writes it into the value text, where the
  sibling \<^verbatim>\<open>updateMetric\<close> clamps; and after \<^verbatim>\<open>updatePerformanceMetric("cpu", 0.5)\<close>
  the value text shows 0.5, not a whole number.
\<close>

theorem updateDashboard_stores_unclamped:
  "usage (performanceData (the (updateDashboard [(''cpu'', [''usage'' \<mapsto> Fin 150])] (Some sample_dash)))) Cpu = Fin 150
   \<and> map_option textContent (nodes (document (the (updateDashboard [(''cpu'', [''usage'' \<mapsto> Fin 150])] (Some sample_dash)))) ''cpu-value'')
       = Some [Val (Some (Fin 150)), Lit ''%'']
   \<and> map_option textContent (nodes (document (the (updatePerformanceMetric ''cpu'' (Fin (1 / 2)) (Some sample_dash)))) ''cpu-value'')
       = Some [Val (Some (Fin (1 / 2))), Lit ''%'']"
  using value_node_updateUI [of _ _ Cpu]
  by (simp add: updateDashboard_def updatePerformanceMetric_def updateMetric_def Let_def
      merge_metric_def metric_of_name_def Object_assign_def usage_def num_def set_field_def
      sample_dash_def sample_document_def clamp_percent_def)

section \<open>Messages per click (C10)\<close>

text \<open>
  C10. In a document that has every control of the catalog, each an element of its own
  and none inside another element that carries a listener, with the channel available, a
  click on the full-clean control posts "full-clean" twice, a click on the clean-ram
  control posts "clean-ram" twice, and a click on any other control posts its message
  once; nothing else changes.
\<close>

theorem each_control_posts_its_message:
  assumes "\<forall>c\<in>set catalog. finds c \<noteq> None"
    and "inj_on finds (set catalog)"
    and "c \<in> set catalog"
    and "\<forall>a\<in>set ancestors. \<forall>c'\<in>set catalog. finds c' \<noteq> Some a"
    and "channel_available h"
  shows "click_control finds (the (finds c) # ancestors) h =
     h\<lparr>posted := posted h @
          (if c = (DataAction, ''full-clean'') \<or> c = (DataAction, ''clean-ram'')
           then [snd c, snd c] else [snd c])\<rparr>"
proof -
  have anc: "fold (\<lambda>x h. fold run_listener (listeners_on finds x) h) ancestors h' = h'" for h'
    using assms(4)
  proof (induction ancestors arbitrary: h')
    case Nil
    then show ?case by simp
  next
    case (Cons a as)
    then have "listeners_on finds a = []"
      by (intro listeners_on_unused) simp
    with Cons show ?case by simp
  qed
  have l: "listeners_on finds (the (finds c)) =
      (if c = (DataAction, ''full-clean'') \<or> c = (DataAction, ''clean-ram'')
       then [PostOrLog (snd c), Post (snd c)] else [Post (snd c)])"
    using listeners_on_found [OF assms(1-3)] catalog_listeners assms(3) by simp
  have av: "channel_available (h\<lparr>posted := ms\<rparr>)" for ms
    using assms(5) by (simp add: channel_available_def)
  show ?thesis
    using assms(5) av by (simp add: click_control_def anc l)
qed

text \<open>Clicks on four controls of the sample document.\<close>

theorem each_control_posts_its_message_witness:
  "posted (click_control sample_finds [(DataAction, ''full-clean'')] webview_host) = [''full-clean'', ''full-clean'']
   \<and> posted (click_control sample_finds [(DataAction, ''clean-ram'')] webview_host) = [''clean-ram'', ''clean-ram'']
   \<and> posted (click_control sample_finds [(DataAction, ''ip-flush'')] webview_host) = [''ip-flush'']
   \<and> posted (click_control sample_finds [(DataMod, ''hdr'')] webview_host) = [''hdr'']"
proof -
  have a: "\<forall>a\<in>set []. \<forall>c'\<in>set catalog. sample_finds c' \<noteq> Some a"
    by simp
  have w: "channel_available webview_host"
    by (simp add: channel_available_def webview_host_def)
  have t: "the (sample_finds c) = c" if "c \<in> set catalog" for c
    using that by (simp add: sample_finds_def)
  note T = each_control_posts_its_message [OF sample_finds_all sample_finds_inj _ a w]
  from T [OF sample_catalog(1)] T [OF sample_catalog(2)] T [OF sample_catalog(3)] T [OF sample_catalog(4)]
  show ?thesis
    by (simp add: t sample_catalog webview_host_def)
qed

section \<open>A click without the channel (C8)\<close>

text \<open>
  C8 fails on the code. With \<^verbatim>\<open>window.chrome\<close> missing, a click on the ip-flush
  control posts nothing and logs nothing: its listener has no \<^verbatim>\<open>else\<close> branch. Of the
  two listeners of the full-clean control the first logs, as the claim says, and the
  second is silent.
\<close>

theorem silent_control_logs_nothing:
  "click_control sample_finds [(DataAction, ''ip-flush'')] silent_host = silent_host
   \<and> logged (click_control sample_finds [(DataAction, ''ip-flush'')] silent_host) = []
   \<and> logged (click_control sample_finds [(DataAction, ''full-clean'')] silent_host) = [''WebView host not available'']
   \<and> posted (click_control sample_finds [(DataAction, ''full-clean'')] silent_host) = []"
proof -
  have l: "listeners_on sample_finds (the (sample_finds c)) = map snd (filter (\<lambda>r. fst r = c) registrations)"
    if "c \<in> set catalog" for c
    by (rule listeners_on_found [OF sample_finds_all sample_finds_inj that])
  have t: "the (sample_finds c) = c" if "c \<in> set catalog" for c
    using that by (simp add: sample_finds_def)
  have 1: "listeners_on sample_finds (DataAction, ''ip-flush'') = [Post ''ip-flush'']"
    using l [OF sample_catalog(3)] catalog_listeners sample_catalog(3) by (simp add: t)
  have 2: "listeners_on sample_finds (DataAction, ''full-clean'') = [PostOrLog ''full-clean'', Post ''full-clean'']"
    using l [OF sample_catalog(1)] catalog_listeners sample_catalog(1) by (simp add: t)
  show ?thesis
    by (simp add: click_control_def 1 2 silent_host_def channel_available_def)
qed

section \<open>A click on a button with its page (C9)\<close>

text \<open>
  C9. A click on a navigation button whose \<^verbatim>\<open>data-page\<close> is \<open>t\<close>, in a document where
  the first element carrying that \<^verbatim>\<open>data-page\<close> is a navigation button \<open>b\<close> and the
  element with id \<open>t\<close> is a page \<open>p\<close> (no button being a page), the clicked button
  lying inside no other navigation button: afterwards \<open>b\<close> is the one active button and
  \<open>p\<close> the one active page, no element has changed but in its \<^verbatim>\<open>active\<close> class, and the
  same click once more changes nothing.
\<close>

theorem click_activates_one_button_and_page:
  assumes "plain_identifier t"
    and "i < length xs" "nav_btn (xs ! i)" "data_page (xs ! i) = Some t"
    and "list_all (\<lambda>j. \<not> (j < length xs \<and> nav_btn (xs ! j))) ancestors"
    and "querySelector (\<lambda>x. data_page x = Some t) xs = Some b"
    and "nav_btn (xs ! b)" "\<not> page (xs ! b)"
    and "getElementById t xs = Some p"
    and "page (xs ! p)" "\<not> nav_btn (xs ! p)"
  shows "length (click (i # ancestors) xs) = length xs
    \<and> {j. j < length xs \<and> nav_btn (click (i # ancestors) xs ! j) \<and>
             active (click (i # ancestors) xs ! j)} = {b}
    \<and> {j. j < length xs \<and> page (click (i # ancestors) xs ! j) \<and>
             active (click (i # ancestors) xs ! j)} = {p}
    \<and> data_page (click (i # ancestors) xs ! b) = Some t
    \<and> elem_id (click (i # ancestors) xs ! p) = Some t
    \<and> (\<forall>j<length xs. click (i # ancestors) xs ! j =
           (xs ! j)\<lparr>active := (j = b \<or> j = p \<or> active (xs ! j) \<and> \<not> nav_btn (xs ! j) \<and> \<not> page (xs ! j))\<rparr>)
    \<and> click (i # ancestors) (click (i # ancestors) xs) = click (i # ancestors) xs"
proof -
  let ?ys = "click (i # ancestors) xs"
  have ys: "?ys = switchPage t xs"
    using click_button [OF assms(2,3,5)] assms(4) by (simp add: dataset_page_def)
  from querySelector_Some [OF assms(6)] have b: "b < length xs" "data_page (xs ! b) = Some t"
    by simp_all
  from assms(9) have "querySelector (\<lambda>x. elem_id x = Some t) xs = Some p"
    by (simp add: getElementById_def split: if_splits)
  from querySelector_Some [OF this] have p: "p < length xs" "elem_id (xs ! p) = Some t"
    by simp_all
  have nth: "switchPage t xs ! j =
      (if j = b \<or> j = p then (xs ! j)\<lparr>active := True\<rparr> else deactivate (xs ! j))"
    if "j < length xs" for j
    by (rule nth_switchPage [OF assms(6,9) that])
  have 1: "length ?ys = length xs"
    by (simp add: ys length_switchPage)
  have 2: "{j. j < length xs \<and> nav_btn (?ys ! j) \<and> active (?ys ! j)} = {b}"
    unfolding ys using b(1) assms(7,11)
    by (auto simp: nth deactivate_fields deactivate_active split: if_splits)
  have 3: "{j. j < length xs \<and> page (?ys ! j) \<and> active (?ys ! j)} = {p}"
    unfolding ys using p(1) assms(8,10)
    by (auto simp: nth deactivate_fields deactivate_active split: if_splits)
  have 4: "data_page (?ys ! b) = Some t"
    by (simp add: ys switchPage_fields b)
  have 5: "elem_id (?ys ! p) = Some t"
    by (simp add: ys switchPage_fields p)
  have 6: "\<forall>j<length xs. ?ys ! j =
      (xs ! j)\<lparr>active := (j = b \<or> j = p \<or> active (xs ! j) \<and> \<not> nav_btn (xs ! j) \<and> \<not> page (xs ! j))\<rparr>"
    unfolding ys by (auto simp: nth deactivate_def)
  have "i < length ?ys" "nav_btn (?ys ! i)" "dataset_page (?ys ! i) = t"
    using assms(2,3,4) by (simp_all add: ys length_switchPage switchPage_fields dataset_page_def)
  moreover have "list_all (\<lambda>j. \<not> (j < length ?ys \<and> nav_btn (?ys ! j))) ancestors"
    unfolding ys by (rule no_button_after_switchPage [OF assms(5)])
  ultimately have "click (i # ancestors) ?ys = switchPage t ?ys"
    using click_button [of i ?ys ancestors] by simp
  then have 7: "click (i # ancestors) ?ys = ?ys"
    by (simp add: ys switchPage_idem [OF assms(6,9)])
  from 1 2 3 4 5 6 7 show ?thesis by blast
qed

text \<open>
  A click on the settings button of the sample document with both pages, the click
  travelling on through an element that is no navigation button.
\<close>

theorem click_activates_one_button_and_page_witness:
  "{j. j < 4 \<and> nav_btn (click [1, 3] sample_pages ! j) \<and> active (click [1, 3] sample_pages ! j)} = {1}
   \<and> {j. j < 4 \<and> page (click [1, 3] sample_pages ! j) \<and> active (click [1, 3] sample_pages ! j)} = {3}
   \<and> map active sample_pages = [True, False, True, False]
   \<and> map active (click [1, 3] sample_pages) = [False, True, False, True]
   \<and> click [1, 3] (click [1, 3] sample_pages) = click [1, 3] sample_pages"
proof -
  have h: "plain_identifier ''settings''" "1 < length sample_pages" "nav_btn (sample_pages ! 1)"
    "data_page (sample_pages ! 1) = Some ''settings''"
    "list_all (\<lambda>j. \<not> (j < length sample_pages \<and> nav_btn (sample_pages ! j))) [3]"
    "querySelector (\<lambda>x. data_page x = Some ''settings'') sample_pages = Some 1"
    "nav_btn (sample_pages ! 1)" "\<not> page (sample_pages ! 1)"
    "getElementById ''settings'' sample_pages = Some 3"
    "page (sample_pages ! 3)" "\<not> nav_btn (sample_pages ! 3)"
    by (simp_all add: plain_identifier_def sample_pages_def sample_elements_def getElementById_def)
  have l: "length sample_pages = 4"
    by (simp add: sample_pages_def sample_elements_def)
  let ?ys = "click [1, 3] sample_pages"
  note T = click_activates_one_button_and_page [OF h]
  from T have len: "length ?ys = 4"
    by (simp add: l)
  from T have nth: "\<forall>j<4. ?ys ! j =
      (sample_pages ! j)\<lparr>active := (j = 1 \<or> j = 3 \<or> active (sample_pages ! j) \<and>
         \<not> nav_btn (sample_pages ! j) \<and> \<not> page (sample_pages ! j))\<rparr>"
    by (simp add: l)
  have "?ys = map ((!) ?ys) [0..<4]"
    using map_nth [of ?ys] len by simp
  also have "[0..<4] = [0, 1, 2, 3::nat]"
    by code_simp
  finally have "?ys = [?ys ! 0, ?ys ! 1, ?ys ! 2, ?ys ! 3]"
    by simp
  with nth have ys: "map active ?ys = [False, True, False, True]"
    by (simp add: sample_pages_def sample_elements_def)
  have before: "map active sample_pages = [True, False, True, False]"
    by (simp add: sample_pages_def sample_elements_def)
  from T have "{j. j < 4 \<and> nav_btn (?ys ! j) \<and> active (?ys ! j)} = {1}"
    and "{j. j < 4 \<and> page (?ys ! j) \<and> active (?ys ! j)} = {3}"
    and "click [1, 3] ?ys = ?ys"
    by (simp_all add: l)
  with before ys show ?thesis
    by simp
qed

section \<open>A click on a button without its page (C2)\<close>

text \<open>
  C2 fails on the code. \<^verbatim>\<open>switchPage\<close> removes \<^verbatim>\<open>active\<close> from every button and every
  page before it looks the target up (lines 23-24), and the test of line 30 only guards
  the two \<^verbatim>\<open>add\<close> calls: a click on the settings button of a document without a
  settings page leaves no button and no page active, and so does a call with an
  identifier that no button carries.
\<close>

theorem unknown_page_click_deactivates:
  "map active sample_elements = [True, False, True]
   \<and> map active (click [1] sample_elements) = [False, False, False]
   \<and> click [1] sample_elements \<noteq> sample_elements
   \<and> getElementById ''settings'' sample_elements = None
   \<and> map active (switchPage ''nowhere'' sample_elements) = [False, False, False]"
  by (simp add: click_def nav_listener_def switchPage_def sample_elements_def dataset_page_def
      getElementById_def classList_remove_active_def)

end
